theory Spec2Isabelle
  imports Main
begin

section \<open>The worker node of distributed3/worker.py\<close>

text \<open>
  A shallow embedding of the class \<open>Worker\<close>: its constructor, \<open>_start\<close>,
  \<open>_close\<close>, \<open>terminate\<close>, \<open>work\<close> (the
  \<open>compute\<close> handler) and \<open>get_data\<close>.

  The handlers are coroutines on one event loop. A handler is modelled as a function from
  the state before the call to its result and the state after it. Every awaited call to
  another process (\<open>connect\<close>, \<open>rpc(...).register\<close>,
  \<open>unregister\<close>, \<open>add_keys\<close>,
  \<open>gather_strict_from_center\<close>) takes its outcome from a record of replies,
  a parameter of the handler: either a reply or the exception the call raises. Each
  such call is also appended to the list \<open>sent\<close> when it is issued, and each
  call of \<open>log\<close> to the list \<open>logged\<close>, so that what a handler
  says to the Center and what it prints can be stated. Interleaving of several handlers
  is not modelled. Where Python 2 and Python 3 differ in what a handler does, the model
  follows the interpreter of the process.
\<close>

subsection \<open>Python values\<close>

type_synonym key = string
type_synonym bytes = string
type_synonym address = "string \<times> int"

text \<open>
  An exception object, by its class and by what the handlers ask of it:
  \<open>PyException cls text\<close> is an instance of \<open>Exception\<close> of which
  \<open>str(e)\<close> gives \<open>text\<close>; \<open>PyBaseException cls text\<close> is not an
  instance of \<open>Exception\<close> (\<open>SystemExit\<close>, \<open>KeyboardInterrupt\<close>,
  \<open>GeneratorExit\<close>, or a class of the user's derived from
  \<open>BaseException\<close> alone); \<open>PyUnprintable cls x\<close> is an instance of
  \<open>Exception\<close> of which \<open>str(e)\<close> raises \<open>x\<close> (a
  \<open>__str__\<close> of the user's that fails, or on Python 2 a message that is not
  ascii).
\<close>

datatype py_exception =
    PyException (exc_class: string) string
  | PyBaseException (exc_class: string) string
  | PyUnprintable (exc_class: string) py_exception

text \<open>\<open>isinstance(e, Exception)\<close>, what \<open>except Exception\<close> asks.\<close>

fun is_Exception :: "py_exception \<Rightarrow> bool" where
  "is_Exception (PyException cls text) = True"
| "is_Exception (PyBaseException cls text) = False"
| "is_Exception (PyUnprintable cls x) = True"

text \<open>\<open>str(e)\<close>: the text, or the exception that computing it raises.\<close>

fun str_exc :: "py_exception \<Rightarrow> py_exception + string" where
  "str_exc (PyException cls text) = Inr text"
| "str_exc (PyBaseException cls text) = Inr text"
| "str_exc (PyUnprintable cls x) = Inl x"

text \<open>
  A traceback object, known by the entries \<open>traceback.format_tb\<close> makes of it.
\<close>

datatype traceback = Traceback (format_tb: "string list")

text \<open>
  The interpreter the worker runs on. The module is written for both
  (\<open>from __future__ import print_function, division\<close>); they differ, as far as
  the handlers go, in the default codec of \<open>decode\<close> and in whether an exception
  object carries its traceback.
\<close>

datatype python = Python2 | Python3

text \<open>
  The values a store holds and a function takes and returns. \<open>PyExc e tb\<close> is the
  exception object \<open>e\<close> held as a value, as line 135 (\<open>result = e\<close>)
  makes it, with the traceback object it carries as \<open>e.__traceback__\<close>, if it
  carries one.
\<close>

datatype pyval =
    PyNone
  | PyInt int
  | PyStr string
  | PyList "pyval list"
  | PyExc py_exception "traceback option"

type_synonym kwargs = "(string \<times> pyval) list"

text \<open>
  What awaiting a submitted function gives (line 131): the value it returns, or the
  exception it raises together with the traceback that \<open>sys.exc_info()\<close> then
  holds. A function is a value of HOL, so it neither runs forever nor changes its
  arguments in place.
\<close>

datatype outcome =
    Returns pyval
  | Raises py_exception traceback

text \<open>
  A callable: a function with or without a \<open>__name__\<close>, or an object with an
  attribute \<open>func\<close> (a \<open>functools.partial\<close>) that holds a callable
  and the arguments given in advance.
\<close>

datatype pyfunc =
    Function "string option" "pyval list \<Rightarrow> kwargs \<Rightarrow> outcome"
  | Partial pyfunc "pyval list" kwargs

fun funcname :: "pyfunc \<Rightarrow> string" where
  "funcname (Partial func _ _) = funcname func"
| "funcname (Function (Some name) _) = name"
| "funcname (Function None _) = ''no-name''"

fun call :: "pyfunc \<Rightarrow> pyval list \<Rightarrow> kwargs \<Rightarrow> outcome" where
  "call (Function _ body) args kws = body args kws"
| "call (Partial func args0 kws0) args kws = call func (args0 @ args) (kws0 @ kws)"

subsection \<open>The state of a worker process\<close>

text \<open>The calls a worker issues to the Center, in the order \<open>sent\<close> keeps.\<close>

datatype center_call =
    Connect address
  | Register int address
  | Unregister address
  | Gather "key list"
  | AddKeys address bool "key list"

text \<open>The lines handed to \<open>log\<close>, one constructor for each place that logs.\<close>

datatype log_line =
    LogStartWorker
  | LogRegistered
  | LogGather "key list"
  | LogStartJob int string
  | LogFinishJob int string
  | LogLine string
  | LogCouldNotReport string

text \<open>
  The attributes of \<open>self\<close>. \<open>status\<close> is \<open>None\<close>,
  \<open>'running'\<close> or \<open>'closed'\<close>. The base class \<open>Server\<close>
  (distributed3/core.py) is not among the sources; of its state the model keeps the flag
  \<open>listening\<close>, which \<open>listen\<close> sets and \<open>stop\<close> clears
  (the spec, 4.1: "stop accepting new connections"). The table of handlers and the
  executor are not state that a statement below reads, and are left out.
\<close>

record worker =
  ip :: string
  port :: int
  center_ip :: string
  center_port :: int
  ncores :: int
  data :: "key \<rightharpoonup> pyval"
  status :: "string option"
  listening :: bool

text \<open>
  The process around it: its interpreter, the module's \<open>job_counter[0]\<close>, the
  calls issued to the Center and the lines logged so far.
\<close>

record process = worker +
  interpreter :: python
  job_counter :: int
  sent :: "center_call list"
  logged :: "log_line list"

text \<open>
  What the other side answers during one handler call. \<open>connect_reply\<close> is
  \<open>None\<close> when the connection opens; \<open>gather_reply\<close> is the outcome
  of \<open>gather_strict_from_center\<close> (distributed3/client.py, not among the
  sources) for the list of keys it is given. It is a parameter: the statements on
  \<open>work\<close> hold for every fetcher, but for the one on the keys asked of peers,
  which takes the fetcher of the spec given further down.
\<close>

record center =
  connect_reply :: "py_exception option"
  register_reply :: "py_exception + bytes"
  unregister_reply :: "py_exception + bytes"
  gather_reply :: "key list \<Rightarrow> py_exception + pyval list"
  add_keys_reply :: "py_exception + bytes"

subsection \<open>Construction, start and shutdown\<close>

text \<open>
  \<open>__init__\<close> (lines 62 to 80). \<open>default_ncores\<close> is the module's
  \<open>_ncores\<close>, the size of a default thread pool on the machine;
  \<open>ncores or _ncores\<close> takes it when \<open>ncores\<close> is \<open>None\<close>
  or 0. The process is fresh: the module was just loaded with \<open>job_counter = [0]\<close>
  on the interpreter \<open>py\<close>.
\<close>

definition init ::
  "int \<Rightarrow> python \<Rightarrow> string \<Rightarrow> int \<Rightarrow> string \<Rightarrow> int \<Rightarrow> int option \<Rightarrow> process" where
  "init default_ncores py ip0 port0 cip cport ncores0 =
     \<lparr> ip = ip0, port = port0, center_ip = cip, center_port = cport,
       ncores = (case ncores0 of None \<Rightarrow> default_ncores
                 | Some n \<Rightarrow> if n = 0 then default_ncores else n),
       data = Map.empty,
       status = Some ''running'',
       listening = False,
       interpreter = py,
       job_counter = 0,
       sent = [],
       logged = [LogStartWorker] \<rparr>"

text \<open>
  \<open>_start\<close> (lines 83 to 88): listen, register, and assert that the reply is
  \<open>b'OK'\<close>. The failed assertion raises \<open>AssertionError()\<close>, of which
  \<open>str\<close> gives the empty string.
\<close>

definition start :: "center \<Rightarrow> process \<Rightarrow> (py_exception + unit) \<times> process" where
  "start c p =
     (let p1 = p\<lparr>listening := True\<rparr>;
          p2 = p1\<lparr>sent := sent p1 @ [Register (ncores p1) (ip p1, port p1)]\<rparr>
      in case register_reply c of
           Inl e \<Rightarrow> (Inl e, p2)
         | Inr resp \<Rightarrow>
             if resp = ''OK''
             then (Inr (), p2\<lparr>logged := logged p2 @ [LogRegistered]\<rparr>)
             else (Inl (PyException ''AssertionError'' ''''), p2))"

text \<open>
  \<open>_close\<close> (lines 94 to 98): unregister, stop the listener, set the status. The
  reply to \<open>unregister\<close> is not looked at.
\<close>

definition close :: "center \<Rightarrow> process \<Rightarrow> (py_exception + unit) \<times> process" where
  "close c p =
     (let p1 = p\<lparr>sent := sent p @ [Unregister (ip p, port p)]\<rparr>
      in case unregister_reply c of
           Inl e \<Rightarrow> (Inl e, p1)
         | Inr _ \<Rightarrow> (Inr (), p1\<lparr>listening := False, status := Some ''closed''\<rparr>))"

text \<open>\<open>terminate\<close> (lines 101 and 102) awaits \<open>_close\<close>.\<close>

definition terminate :: "center \<Rightarrow> process \<Rightarrow> (py_exception + unit) \<times> process" where
  "terminate c p = close c p"

subsection \<open>compute\<close>

text \<open>
  \<open>dict(zip(keys, values))\<close>: the pairs are stored from left to right, a later
  pair replacing an earlier one with the same key.
\<close>

definition dict_zip :: "key list \<Rightarrow> pyval list \<Rightarrow> (key \<rightharpoonup> pyval)" where
  "dict_zip ks vs = foldl (\<lambda>m (k, v). m(k \<mapsto> v)) Map.empty (zip ks vs)"

text \<open>\<open>toolz.merge(a, b)\<close>: a new dictionary, \<open>b\<close> wins where both have a key.\<close>

definition merge :: "(key \<rightharpoonup> pyval) \<Rightarrow> (key \<rightharpoonup> pyval) \<Rightarrow> (key \<rightharpoonup> pyval)" where
  "merge a b = a ++ b"

text \<open>
  Modelled from the spec: \<open>keys_to_data\<close> of distributed3/client.py is not among
  the sources. The spec, 4.2 step 5: "Substitute every key-reference found (recursively)
  inside args/kwargs with its resolved value from the effective view before invocation."
  A key is a string, so a string that the view holds is a reference to its value.
\<close>

fun substitute :: "(key \<rightharpoonup> pyval) \<Rightarrow> pyval \<Rightarrow> pyval" where
  "substitute d (PyStr s) = (case d s of Some v \<Rightarrow> v | None \<Rightarrow> PyStr s)"
| "substitute d (PyList vs) = PyList (map (substitute d) vs)"
| "substitute d v = v"

definition keys_to_data :: "pyval list \<Rightarrow> (key \<rightharpoonup> pyval) \<Rightarrow> pyval list" where
  "keys_to_data args d = map (substitute d) args"

definition keys_to_data_kw :: "kwargs \<Rightarrow> (key \<rightharpoonup> pyval) \<Rightarrow> kwargs" where
  "keys_to_data_kw kws d = map (\<lambda>(name, v). (name, substitute d v)) kws"

text \<open>
  Well-formed UTF-8, as the strict decoder of Python 3 takes it: the byte sequences of
  the code points up to 10FFFF without the surrogates, none of them longer than needed.
\<close>

definition continuation :: "nat \<Rightarrow> bool" where
  "continuation b = (0x80 \<le> b \<and> b \<le> 0xBF)"

fun utf8_ok :: "nat list \<Rightarrow> bool" where
  "utf8_ok [] = True"
| "utf8_ok [b] = (b < 0x80)"
| "utf8_ok [b, c1] =
     (if b < 0x80 then utf8_ok [c1]
      else 0xC2 \<le> b \<and> b \<le> 0xDF \<and> continuation c1)"
| "utf8_ok [b, c1, c2] =
     (if b < 0x80 then utf8_ok [c1, c2]
      else if 0xC2 \<le> b \<and> b \<le> 0xDF then continuation c1 \<and> utf8_ok [c2]
      else if b = 0xE0 then 0xA0 \<le> c1 \<and> c1 \<le> 0xBF \<and> continuation c2
      else if b = 0xED then 0x80 \<le> c1 \<and> c1 \<le> 0x9F \<and> continuation c2
      else 0xE1 \<le> b \<and> b \<le> 0xEF \<and> continuation c1 \<and> continuation c2)"
| "utf8_ok (b # c1 # c2 # c3 # bs) =
     (if b < 0x80 then utf8_ok (c1 # c2 # c3 # bs)
      else if 0xC2 \<le> b \<and> b \<le> 0xDF then continuation c1 \<and> utf8_ok (c2 # c3 # bs)
      else if b = 0xE0
        then 0xA0 \<le> c1 \<and> c1 \<le> 0xBF \<and> continuation c2 \<and> utf8_ok (c3 # bs)
      else if b = 0xED
        then 0x80 \<le> c1 \<and> c1 \<le> 0x9F \<and> continuation c2 \<and> utf8_ok (c3 # bs)
      else if 0xE1 \<le> b \<and> b \<le> 0xEF
        then continuation c1 \<and> continuation c2 \<and> utf8_ok (c3 # bs)
      else if b = 0xF0
        then 0x90 \<le> c1 \<and> c1 \<le> 0xBF \<and> continuation c2 \<and> continuation c3 \<and> utf8_ok bs
      else if b = 0xF4
        then 0x80 \<le> c1 \<and> c1 \<le> 0x8F \<and> continuation c2 \<and> continuation c3 \<and> utf8_ok bs
      else 0xF1 \<le> b \<and> b \<le> 0xF3 \<and> continuation c1 \<and> continuation c2 \<and> continuation c3
           \<and> utf8_ok bs)"

text \<open>
  \<open>response.decode()\<close>, with the default codec of the interpreter:
  \<open>ascii\<close> on Python 2, where a byte of 128 or more raises
  \<open>UnicodeDecodeError\<close>, and \<open>utf-8\<close> on Python 3, where bytes that are
  not well-formed UTF-8 raise it. The text decoded is kept as the bytes that encode it.
  The message of the error (codec, byte and position) is shortened.
\<close>

definition decode :: "python \<Rightarrow> bytes \<Rightarrow> py_exception + string" where
  "decode py b =
     (if (case py of
            Python2 \<Rightarrow> list_all (\<lambda>ch. (of_char ch :: nat) < 128) b
          | Python3 \<Rightarrow> utf8_ok (map of_char b))
      then Inr b
      else Inl (PyException ''UnicodeDecodeError'' ''codec can't decode byte''))"
text \<open>
  The request a \<open>compute\<close> call carries: the keyword arguments of \<open>work\<close>,
  each one given (the defaults \<open>function=None\<close> and \<open>key=None\<close> are
  not requests a caller sends). \<open>kwargs\<close> is the dictionary as the list of its
  items.
\<close>

record request =
  "function" :: pyfunc
  key :: key
  args :: "pyval list"
  kwargs :: kwargs
  needed :: "key list"

text \<open>
  Lines 111 to 120 of \<open>work\<close>: connect to the Center, keep of \<open>needed\<close>
  the keys the store does not hold, fetch them if there are any, and build \<open>data2\<close>.
\<close>

definition gather_data ::
  "center \<Rightarrow> key list \<Rightarrow> process \<Rightarrow> (py_exception + (key \<rightharpoonup> pyval)) \<times> process" where
  "gather_data c needed0 p =
     (let p1 = p\<lparr>sent := sent p @ [Connect (center_ip p, center_port p)]\<rparr>
      in case connect_reply c of
           Some e \<Rightarrow> (Inl e, p1)
         | None \<Rightarrow>
             let needed1 = filter (\<lambda>n. data p1 n = None) needed0
             in if needed1 \<noteq> []
                then
                  let p2 = p1\<lparr>logged := logged p1 @ [LogGather needed1]\<rparr>;
                      p3 = p2\<lparr>sent := sent p2 @ [Gather needed1]\<rparr>
                  in case gather_reply c needed1 of
                       Inl e \<Rightarrow> (Inl e, p3)
                     | Inr other \<Rightarrow> (Inr (merge (data p3) (dict_zip needed1 other)), p3)
                else (Inr (data p1), p1))"

text \<open>
  \<open>e.__traceback__\<close>: on Python 3 the exception object holds the traceback it
  was raised with, on Python 2 an exception object holds none.
\<close>

definition attached :: "python \<Rightarrow> traceback \<Rightarrow> traceback option" where
  "attached py tb = (case py of Python2 \<Rightarrow> None | Python3 \<Rightarrow> Some tb)"

text \<open>
  Lines 127 to 140: count the job, run the function in the executor, and turn what it did
  into \<open>result\<close> and \<open>out_response\<close>. \<open>except Exception\<close> catches
  the instances of \<open>Exception\<close>; any other exception leaves \<open>work\<close>
  here. In the handler, \<open>log(str(e))\<close> of line 138 comes before anything is
  stored: when \<open>str(e)\<close> raises, that exception leaves \<open>work\<close>.
\<close>

definition run_job ::
  "pyfunc \<Rightarrow> pyval list \<Rightarrow> kwargs \<Rightarrow> process \<Rightarrow> (py_exception + pyval \<times> bytes) \<times> process" where
  "run_job f args2 kwargs2 p =
     (let p1 = p\<lparr>job_counter := job_counter p + 1\<rparr>;
          i = job_counter p1;
          p2 = p1\<lparr>logged := logged p1 @ [LogStartJob i (funcname f)]\<rparr>
      in case call f args2 kwargs2 of
           Returns v \<Rightarrow>
             (Inr (v, ''success''),
              p2\<lparr>logged := logged p2 @ [LogFinishJob i (funcname f)]\<rparr>)
         | Raises e tb \<Rightarrow>
             if is_Exception e
             then (case str_exc e of
                     Inl x \<Rightarrow> (Inl x, p2)
                   | Inr text \<Rightarrow>
                       (Inr (PyExc e (attached (interpreter p2) tb), ''error''),
                        p2\<lparr>logged := logged p2 @
                             [LogLine text, LogLine (concat (format_tb tb))]\<rparr>))
             else (Inl e, p2))"

text \<open>
  Lines 143 to 149: store the result, tell the Center, log a reply other than
  \<open>b'OK'\<close>, return \<open>out_response\<close>.
\<close>

definition report ::
  "center \<Rightarrow> key \<Rightarrow> pyval \<Rightarrow> bytes \<Rightarrow> process \<Rightarrow> (py_exception + bytes) \<times> process" where
  "report c k result out_response p =
     (let p1 = p\<lparr>data := (data p)(k \<mapsto> result)\<rparr>;
          p2 = p1\<lparr>sent := sent p1 @ [AddKeys (ip p1, port p1) True [k]]\<rparr>
      in case add_keys_reply c of
           Inl e \<Rightarrow> (Inl e, p2)
         | Inr response \<Rightarrow>
             if response \<noteq> ''OK''
             then (case decode (interpreter p2) response of
                     Inl e \<Rightarrow> (Inl e, p2)
                   | Inr text \<Rightarrow>
                       (Inr out_response, p2\<lparr>logged := logged p2 @ [LogCouldNotReport text]\<rparr>))
             else (Inr out_response, p2))"

text \<open>\<open>work\<close> (lines 109 to 149), the handler of \<open>compute\<close>.\<close>

definition work :: "center \<Rightarrow> request \<Rightarrow> process \<Rightarrow> (py_exception + bytes) \<times> process" where
  "work c r p =
     (case gather_data c (needed r) p of
        (Inl e, p1) \<Rightarrow> (Inl e, p1)
      | (Inr data2, p1) \<Rightarrow>
          let args2 = keys_to_data (args r) data2;
              kwargs2 = keys_to_data_kw (kwargs r) data2
          in case run_job (function r) args2 kwargs2 p1 of
               (Inl e, p2) \<Rightarrow> (Inl e, p2)
             | (Inr (result, out_response), p2) \<Rightarrow>
                 report c (key r) result out_response p2)"
subsection \<open>get_data\<close>

text \<open>The \<open>KeyError\<close> that \<open>self.data[k]\<close> raises, with the key it is for.\<close>

datatype key_error = KeyError key

text \<open>
  The dictionary \<open>{k: self.data[k] for k in keys}\<close> of line 171, built key by key;
  a key the store does not hold raises \<open>KeyError\<close>.
\<close>

fun collect ::
  "(key \<rightharpoonup> pyval) \<Rightarrow> (key \<rightharpoonup> pyval) \<Rightarrow> key list \<Rightarrow> key_error + (key \<rightharpoonup> pyval)" where
  "collect d acc [] = Inr acc"
| "collect d acc (k # ks) =
     (case d k of
        None \<Rightarrow> Inl (KeyError k)
      | Some v \<Rightarrow> collect d (acc(k \<mapsto> v)) ks)"

definition get_data ::
  "key list \<Rightarrow> process \<Rightarrow> (key_error + (key \<rightharpoonup> pyval)) \<times> process" where
  "get_data keys p = (collect (data p) Map.empty keys, p)"

subsection \<open>The fetcher\<close>



subsection \<open>What the statements below speak of\<close>

text \<open>
  What the function submitted by a \<open>compute\<close> call does in that call:
  \<open>None\<close> when the call ends before line 131 (the connection or the fetch raised),
  otherwise the outcome of \<open>function(*args2, **kwargs2)\<close>.
\<close>

definition job_outcome :: "center \<Rightarrow> request \<Rightarrow> process \<Rightarrow> outcome option" where
  "job_outcome c r p =
     (case fst (gather_data c (needed r) p) of
        Inl e \<Rightarrow> None
      | Inr data2 \<Rightarrow>
          Some (call (function r) (keys_to_data (args r) data2)
                  (keys_to_data_kw (kwargs r) data2)))"

text \<open>The key lists of the fetches among the calls issued.\<close>

fun fetches :: "center_call list \<Rightarrow> key list list" where
  "fetches [] = []"
| "fetches (Gather ks # cs) = ks # fetches cs"
| "fetches (c # cs) = fetches cs"


subsection \<open>A small cluster to run the handlers on\<close>

text \<open>
  A strict fetcher over what the peers hold: the values of the keys in the order asked,
  or \<open>KeyError\<close> for the first key no peer holds.
\<close>

fun fetch_from :: "(key \<rightharpoonup> pyval) \<Rightarrow> key list \<Rightarrow> py_exception + pyval list" where
  "fetch_from peers [] = Inr []"
| "fetch_from peers (k # ks) =
     (case peers k of
        None \<Rightarrow> Inl (PyException ''KeyError'' k)
      | Some v \<Rightarrow> (case fetch_from peers ks of Inl e \<Rightarrow> Inl e | Inr vs \<Rightarrow> Inr (v # vs)))"

fun add_body :: "pyval list \<Rightarrow> kwargs \<Rightarrow> outcome" where
  "add_body [PyInt a, PyInt b] kws = Returns (PyInt (a + b))"
| "add_body vs kws =
     Raises (PyException ''TypeError'' ''unsupported operand type(s) for +'')
       (Traceback [''  File ops.py, line 2, in add''])"

definition add_function :: pyfunc where
  "add_function = Function (Some ''add'') add_body"

text \<open>
  A function that calls \<open>sys.exit()\<close>, and one that raises an exception whose
  \<open>__str__\<close> fails.
\<close>

definition exit_function :: pyfunc where
  "exit_function =
     Function (Some ''leave'')
       (\<lambda>vs kws. Raises (PyBaseException ''SystemExit'' '''')
                   (Traceback [''  File ops.py, line 5, in leave'']))"

definition mute_function :: pyfunc where
  "mute_function =
     Function (Some ''mute'')
       (\<lambda>vs kws. Raises (PyUnprintable ''Mute'' (PyException ''ValueError'' ''no text''))
                   (Traceback [''  File ops.py, line 8, in mute'']))"

definition worker0 :: process where
  "worker0 = init 4 Python3 ''192.168.0.101'' 8001 ''192.168.0.100'' 8000 None"

definition center_ok :: center where
  "center_ok =
     \<lparr> connect_reply = None, register_reply = Inr ''OK'', unregister_reply = Inr ''OK'',
       gather_reply = fetch_from [''x'' \<mapsto> PyInt 2, ''y'' \<mapsto> PyInt 3],
       add_keys_reply = Inr ''OK'' \<rparr>"

definition request_add :: request where
  "request_add =
     \<lparr> function = add_function, key = ''z'', args = [PyStr ''x'', PyStr ''y''],
       kwargs = [], needed = [''x'', ''y''] \<rparr>"

section \<open>Properties\<close>


lemmas work_defs = work_def gather_data_def run_job_def report_def Let_def

lemmas cluster_defs = worker0_def center_ok_def request_add_def add_function_def init_def
  keys_to_data_def keys_to_data_kw_def merge_def dict_zip_def attached_def
  exit_function_def mute_function_def

subsection \<open>The three parts of work, field by field\<close>

lemma gather_data_data: "data (snd (gather_data c ns p)) = data p"
  by (simp add: gather_data_def Let_def split: option.splits sum.splits)

lemma gather_data_interpreter: "interpreter (snd (gather_data c ns p)) = interpreter p"
  by (simp add: gather_data_def Let_def split: option.splits sum.splits)

lemma gather_data_sent:
  "sent (snd (gather_data c ns p)) =
     sent p @ Connect (center_ip p, center_port p) #
       (if connect_reply c = None \<and> filter (\<lambda>n. data p n = None) ns \<noteq> []
        then [Gather (filter (\<lambda>n. data p n = None) ns)] else [])"
  by (simp add: gather_data_def Let_def split: option.splits sum.splits)


lemma run_job_sent: "sent (snd (run_job f a kw p)) = sent p"
  by (simp add: run_job_def Let_def split: outcome.splits sum.splits)

lemma run_job_result:
  "fst (run_job f a kw p) =
     (case call f a kw of
        Returns v \<Rightarrow> Inr (v, ''success'')
      | Raises e tb \<Rightarrow>
          if is_Exception e
          then (case str_exc e of
                  Inl x \<Rightarrow> Inl x
                | Inr text \<Rightarrow> Inr (PyExc e (attached (interpreter p) tb), ''error''))
          else Inl e)"
  by (simp add: run_job_def Let_def split: outcome.splits sum.splits)

lemma run_job_returns:
  "call f a kw = Returns v \<Longrightarrow>
   run_job f a kw p =
     (Inr (v, ''success''),
      p\<lparr>job_counter := job_counter p + 1,
        logged := logged p @ [LogStartJob (job_counter p + 1) (funcname f),
                              LogFinishJob (job_counter p + 1) (funcname f)]\<rparr>)"
  by (simp add: run_job_def Let_def)

lemma run_job_raises:
  "call f a kw = Raises e tb \<Longrightarrow> is_Exception e \<Longrightarrow> str_exc e = Inr text \<Longrightarrow>
   run_job f a kw p =
     (Inr (PyExc e (attached (interpreter p) tb), ''error''),
      p\<lparr>job_counter := job_counter p + 1,
        logged := logged p @ [LogStartJob (job_counter p + 1) (funcname f),
                              LogLine text, LogLine (concat (format_tb tb))]\<rparr>)"
  by (simp add: run_job_def Let_def)

lemma run_job_escapes:
  "call f a kw = Raises e tb \<Longrightarrow> \<not> is_Exception e \<Longrightarrow>
   run_job f a kw p =
     (Inl e,
      p\<lparr>job_counter := job_counter p + 1,
        logged := logged p @ [LogStartJob (job_counter p + 1) (funcname f)]\<rparr>)"
  by (simp add: run_job_def Let_def)

lemma report_data: "data (snd (report c k res out p)) = (data p)(k \<mapsto> res)"
  by (simp add: report_def Let_def split: sum.splits)

lemma report_sent:
  "sent (snd (report c k res out p)) = sent p @ [AddKeys (ip p, port p) True [k]]"
  by (simp add: report_def Let_def split: sum.splits)

lemma report_logged:
  "set (logged p) \<subseteq> set (logged (snd (report c k res out p)))"
  by (auto simp add: report_def Let_def split: sum.splits)

lemma report_result:
  "fst (report c k res out p) =
     (case add_keys_reply c of
        Inl e \<Rightarrow> Inl e
      | Inr response \<Rightarrow>
          if response \<noteq> ''OK''
          then (case decode (interpreter p) response of Inl e \<Rightarrow> Inl e | Inr text \<Rightarrow> Inr out)
          else Inr out)"
  by (simp add: report_def Let_def split: sum.splits)

lemma work_after_gather:
  "fst (gather_data c (needed r) p) = Inr data2 \<Longrightarrow>
   work c r p =
     (case run_job (function r) (keys_to_data (args r) data2)
             (keys_to_data_kw (kwargs r) data2) (snd (gather_data c (needed r) p)) of
        (Inl e, p2) \<Rightarrow> (Inl e, p2)
      | (Inr (result, out_response), p2) \<Rightarrow> report c (key r) result out_response p2)"
  by (cases "gather_data c (needed r) p") (simp add: work_def Let_def)

lemma job_outcome_Some:
  "job_outcome c r p = Some out \<Longrightarrow>
   \<exists>data2. fst (gather_data c (needed r) p) = Inr data2
     \<and> call (function r) (keys_to_data (args r) data2) (keys_to_data_kw (kwargs r) data2) = out"
  by (auto simp add: job_outcome_def split: sum.splits)

lemma fetches_append: "fetches (xs @ ys) = fetches xs @ fetches ys"
  by (induction xs rule: fetches.induct) simp_all

lemma work_fetches:
  "fetches (sent (snd (work c r p))) = fetches (sent (snd (gather_data c (needed r) p)))"
proof (cases "gather_data c (needed r) p")
  case (Pair res p1)
  show ?thesis
  proof (cases res)
    case (Inl e)
    with Pair show ?thesis by (simp add: work_def)
  next
    case (Inr data2)
    obtain res2 p2 where rj: "run_job (function r) (keys_to_data (args r) data2)
        (keys_to_data_kw (kwargs r) data2) p1 = (res2, p2)"
      by (metis prod.exhaust)
    have "sent p2 = sent p1"
      using run_job_sent [of "function r" "keys_to_data (args r) data2"
          "keys_to_data_kw (kwargs r) data2" p1]
      by (simp add: rj)
    with Pair Inr rj show ?thesis
      by (cases res2) (auto simp add: work_def Let_def report_sent fetches_append)
  qed
qed


subsection \<open>Dictionaries\<close>

lemma collect_present:
  "set ks \<subseteq> dom d \<Longrightarrow> collect d acc ks = Inr (acc ++ (d |` set ks))"
proof (induction ks arbitrary: acc)
  case Nil
  then show ?case by simp
next
  case (Cons k ks)
  then obtain v where v: "d k = Some v" by auto
  have "acc(k \<mapsto> v) ++ (d |` set ks) = acc ++ (d |` set (k # ks))"
    using v by (auto simp: map_add_def restrict_map_def fun_eq_iff split: option.splits)
  with Cons v show ?case by simp
qed








section \<open>The claims\<close>

subsection \<open>C1: a dependency that cannot be fetched\<close>

text \<open>
  C1, as the code has it. When the connection opens, some needed key is not in the store
  and the fetch of the missing keys raises, \<open>work\<close> raises that exception: the
  fetch of line 117 stands before the \<open>try\<close> of line 127. Nothing is stored, no
  job is counted and no \<open>add_keys\<close> is sent; the state changes by the two calls
  issued and the line logged.
\<close>

theorem work_gather_failure_propagates:
  assumes "connect_reply c = None"
    and "filter (\<lambda>n. data p n = None) (needed r) = missing"
    and "missing \<noteq> []"
    and "gather_reply c missing = Inl e"
  shows "work c r p =
     (Inl e, p\<lparr>sent := sent p @ [Connect (center_ip p, center_port p), Gather missing],
               logged := logged p @ [LogGather missing]\<rparr>)"
  using assms by (simp add: work_defs)

theorem work_gather_failure_propagates_witness:
  "connect_reply (center_ok\<lparr>gather_reply := fetch_from Map.empty\<rparr>) = None
   \<and> filter (\<lambda>n. data worker0 n = None) (needed (request_add\<lparr>needed := [''missing_key'']\<rparr>))
       = [''missing_key'']
   \<and> gather_reply (center_ok\<lparr>gather_reply := fetch_from Map.empty\<rparr>) [''missing_key'']
       = Inl (PyException ''KeyError'' ''missing_key'')
   \<and> work (center_ok\<lparr>gather_reply := fetch_from Map.empty\<rparr>)
         (request_add\<lparr>needed := [''missing_key'']\<rparr>) worker0
       = (Inl (PyException ''KeyError'' ''missing_key''),
          worker0\<lparr>sent := sent worker0 @ [Connect (center_ip worker0, center_port worker0),
                                           Gather [''missing_key'']],
                  logged := logged worker0 @ [LogGather [''missing_key'']]\<rparr>)"
  using work_gather_failure_propagates
    [of "center_ok\<lparr>gather_reply := fetch_from Map.empty\<rparr>" worker0
        "request_add\<lparr>needed := [''missing_key'']\<rparr>" "[''missing_key'']"
        "PyException ''KeyError'' ''missing_key''"]
  by (simp add: cluster_defs)

text \<open>
  The scenario of the spec: no peer holds \<open>missing_key\<close>. The call does not
  answer \<open>error\<close>, it raises \<open>KeyError\<close>, and the store holds nothing
  under the result's key.
\<close>

theorem work_missing_key_not_stored:
  "fst (work (center_ok\<lparr>gather_reply := fetch_from Map.empty\<rparr>)
          (request_add\<lparr>needed := [''missing_key'']\<rparr>) worker0)
     = Inl (PyException ''KeyError'' ''missing_key'')
   \<and> fst (work (center_ok\<lparr>gather_reply := fetch_from Map.empty\<rparr>)
          (request_add\<lparr>needed := [''missing_key'']\<rparr>) worker0)
     \<noteq> Inr ''error''
   \<and> data (snd (work (center_ok\<lparr>gather_reply := fetch_from Map.empty\<rparr>)
          (request_add\<lparr>needed := [''missing_key'']\<rparr>) worker0)) ''z'' = None"
  by (simp add: work_defs cluster_defs)

subsection \<open>C2: terminate, called again\<close>

text \<open>
  C2, as the code has it. \<open>terminate\<close> does not look at the status: every call,
  also one on a worker that is already closed, sends \<open>unregister\<close> to the Center,
  and sends nothing else. When that call returns, whatever the reply, the listener is
  stopped and the status is \<open>closed\<close>; when it raises, the exception leaves
  \<open>terminate\<close> and listener and status stay as they were.
\<close>

theorem terminate_always_unregisters:
  "sent (snd (terminate c p)) = sent p @ [Unregister (ip p, port p)]
   \<and> (unregister_reply c = Inr resp \<longrightarrow>
        terminate c p =
          (Inr (), p\<lparr>sent := sent p @ [Unregister (ip p, port p)],
                    listening := False, status := Some ''closed''\<rparr>))
   \<and> (unregister_reply c = Inl e \<longrightarrow>
        terminate c p = (Inl e, p\<lparr>sent := sent p @ [Unregister (ip p, port p)]\<rparr>))"
  by (simp add: terminate_def close_def Let_def split: sum.splits)

text \<open>
  The second \<open>terminate\<close> of a worker, once with a Center that answers and once
  with a Center that cannot be reached.
\<close>

theorem terminate_always_unregisters_witness:
  "unregister_reply center_ok = Inr ''OK''
   \<and> status (snd (terminate center_ok worker0)) = Some ''closed''
   \<and> sent (snd (terminate center_ok (snd (terminate center_ok worker0))))
       = sent (snd (terminate center_ok worker0)) @ [Unregister (''192.168.0.101'', 8001)]
   \<and> terminate center_ok (snd (terminate center_ok worker0)) =
       (Inr (), (snd (terminate center_ok worker0))
          \<lparr>sent := sent (snd (terminate center_ok worker0))
                     @ [Unregister (''192.168.0.101'', 8001)],
           listening := False, status := Some ''closed''\<rparr>)
   \<and> unregister_reply (center_ok\<lparr>unregister_reply := Inl (PyException ''IOError'' ''unreachable'')\<rparr>)
       = Inl (PyException ''IOError'' ''unreachable'')
   \<and> terminate (center_ok\<lparr>unregister_reply := Inl (PyException ''IOError'' ''unreachable'')\<rparr>)
         (snd (terminate center_ok worker0)) =
       (Inl (PyException ''IOError'' ''unreachable''),
        (snd (terminate center_ok worker0))
          \<lparr>sent := sent (snd (terminate center_ok worker0))
                     @ [Unregister (''192.168.0.101'', 8001)]\<rparr>)"
  using terminate_always_unregisters
      [of center_ok "snd (terminate center_ok worker0)" "''OK''"]
    terminate_always_unregisters
      [of "center_ok\<lparr>unregister_reply := Inl (PyException ''IOError'' ''unreachable'')\<rparr>"
          "snd (terminate center_ok worker0)" _ "PyException ''IOError'' ''unreachable''"]
    terminate_always_unregisters [of center_ok worker0 "''OK''"]
  by (simp add: cluster_defs)

text \<open>
  A worker is started and terminated twice. After the first \<open>terminate\<close> it is
  closed; the second sends \<open>unregister\<close> once more.
\<close>

theorem terminate_twice_unregisters_twice:
  "status (snd (terminate center_ok (snd (start center_ok worker0)))) = Some ''closed''
   \<and> sent (snd (terminate center_ok (snd (start center_ok worker0)))) =
       [Register 4 (''192.168.0.101'', 8001), Unregister (''192.168.0.101'', 8001)]
   \<and> sent (snd (terminate center_ok
                   (snd (terminate center_ok (snd (start center_ok worker0)))))) =
       [Register 4 (''192.168.0.101'', 8001), Unregister (''192.168.0.101'', 8001),
        Unregister (''192.168.0.101'', 8001)]"
  by (simp add: terminate_def close_def start_def cluster_defs)

subsection \<open>C3: the status and the registration\<close>

text \<open>
  C3, as the code has it. The constructor sets the status to \<open>running\<close> before
  any call is sent to the Center. \<open>_start\<close> opens the listener and sends
  \<open>register\<close> with the cores and the address; it leaves the status as it finds
  it. When the reply is \<open>b'OK'\<close> it logs the registration and returns; on any
  other reply it raises \<open>AssertionError\<close>; when the call itself raises, that
  exception leaves \<open>_start\<close>.
\<close>

theorem status_running_before_registration:
  "status (init n py i po ci cp nc) = Some ''running''
   \<and> sent (init n py i po ci cp nc) = []
   \<and> status (snd (start c p)) = status p
   \<and> (register_reply c = Inr ''OK'' \<longrightarrow>
        start c p =
          (Inr (), p\<lparr>listening := True,
                    sent := sent p @ [Register (ncores p) (ip p, port p)],
                    logged := logged p @ [LogRegistered]\<rparr>))
   \<and> (register_reply c = Inr resp \<and> resp \<noteq> ''OK'' \<longrightarrow>
        start c p =
          (Inl (PyException ''AssertionError'' ''''),
           p\<lparr>listening := True, sent := sent p @ [Register (ncores p) (ip p, port p)]\<rparr>))
   \<and> (register_reply c = Inl e \<longrightarrow>
        start c p =
          (Inl e, p\<lparr>listening := True,
                   sent := sent p @ [Register (ncores p) (ip p, port p)]\<rparr>))"
  by (simp add: init_def start_def Let_def split: sum.splits)

text \<open>
  One worker, and three Centers: one that answers \<open>b'OK'\<close>, one that answers
  \<open>b'NO'\<close>, one that cannot be reached.
\<close>

theorem status_running_before_registration_witness:
  "status worker0 = Some ''running''
   \<and> sent worker0 = []
   \<and> register_reply center_ok = Inr ''OK''
   \<and> start center_ok worker0 =
       (Inr (), worker0\<lparr>listening := True,
                        sent := [Register 4 (''192.168.0.101'', 8001)],
                        logged := [LogStartWorker, LogRegistered]\<rparr>)
   \<and> start (center_ok\<lparr>register_reply := Inr ''NO''\<rparr>) worker0 =
       (Inl (PyException ''AssertionError'' ''''),
        worker0\<lparr>listening := True, sent := [Register 4 (''192.168.0.101'', 8001)]\<rparr>)
   \<and> start (center_ok\<lparr>register_reply := Inl (PyException ''IOError'' ''unreachable'')\<rparr>)
         worker0 =
       (Inl (PyException ''IOError'' ''unreachable''),
        worker0\<lparr>listening := True, sent := [Register 4 (''192.168.0.101'', 8001)]\<rparr>)
   \<and> status (snd (start (center_ok\<lparr>register_reply := Inr ''NO''\<rparr>) worker0))
       = Some ''running''"
  using status_running_before_registration
      [of 4 Python3 "''192.168.0.101''" 8001 "''192.168.0.100''" 8000 None center_ok worker0]
    status_running_before_registration
      [of 4 Python3 "''192.168.0.101''" 8001 "''192.168.0.100''" 8000 None
          "center_ok\<lparr>register_reply := Inr ''NO''\<rparr>" worker0 "''NO''"]
    status_running_before_registration
      [of 4 Python3 "''192.168.0.101''" 8001 "''192.168.0.100''" 8000 None
          "center_ok\<lparr>register_reply := Inl (PyException ''IOError'' ''unreachable'')\<rparr>"
          worker0 _ "PyException ''IOError'' ''unreachable''"]
  by (simp add: worker0_def center_ok_def init_def)

text \<open>
  A worker just constructed is \<open>running\<close> and has sent nothing. When the Center
  then answers \<open>register\<close> with \<open>b'NO'\<close>, the assertion of line 87 fails
  and the status is still \<open>running\<close>.
\<close>

theorem status_running_without_acknowledgement:
  "status worker0 = Some ''running''
   \<and> sent worker0 = []
   \<and> fst (start (center_ok\<lparr>register_reply := Inr ''NO''\<rparr>) worker0)
       = Inl (PyException ''AssertionError'' '''')
   \<and> status (snd (start (center_ok\<lparr>register_reply := Inr ''NO''\<rparr>) worker0))
       = Some ''running''"
  by (simp add: start_def cluster_defs)

subsection \<open>C4: a function that raises\<close>

text \<open>
  C4, as the code has it. Let the submitted function raise the exception \<open>e\<close>.

  When \<open>e\<close> is an instance of \<open>Exception\<close> and \<open>str(e)\<close> gives a
  text, the store holds under the result's key the exception object \<open>e\<close> itself,
  with the traceback object it carries (on Python 3 the one it was raised with, on
  Python 2 none), and the text and the formatted traceback are logged. \<open>work\<close>
  then answers \<open>error\<close> when \<open>add_keys\<close> returns \<open>b'OK'\<close> or a
  reply that decodes; when the call of \<open>add_keys\<close> raises, that exception leaves
  \<open>work\<close>.

  When \<open>e\<close> is not an instance of \<open>Exception\<close>, line 134 does not catch
  it: it leaves \<open>work\<close>, the store is as before and no \<open>add_keys\<close> is
  sent.
\<close>

theorem work_stores_exception_object:
  assumes "job_outcome c r p = Some (Raises e tb)"
  shows "(is_Exception e \<and> str_exc e = Inr text \<longrightarrow>
            data (snd (work c r p)) (key r) = Some (PyExc e (attached (interpreter p) tb))
          \<and> LogLine text \<in> set (logged (snd (work c r p)))
          \<and> LogLine (concat (format_tb tb)) \<in> set (logged (snd (work c r p)))
          \<and> (add_keys_reply c = Inr ''OK'' \<longrightarrow> fst (work c r p) = Inr ''error'')
          \<and> (add_keys_reply c = Inr response \<and> decode (interpreter p) response = Inr decoded
                \<longrightarrow> fst (work c r p) = Inr ''error'')
          \<and> (add_keys_reply c = Inl x \<longrightarrow> fst (work c r p) = Inl x))
     \<and> (\<not> is_Exception e \<longrightarrow>
            fst (work c r p) = Inl e
          \<and> data (snd (work c r p)) = data p
          \<and> sent (snd (work c r p)) = sent (snd (gather_data c (needed r) p)))"
proof -
  from assms obtain data2 where g: "fst (gather_data c (needed r) p) = Inr data2"
    and f: "call (function r) (keys_to_data (args r) data2)
              (keys_to_data_kw (kwargs r) data2) = Raises e tb"
    using job_outcome_Some by blast
  let ?p1 = "snd (gather_data c (needed r) p)"
  have i1: "interpreter ?p1 = interpreter p"
    by (rule gather_data_interpreter)
  have caught: "data (snd (work c r p)) (key r) = Some (PyExc e (attached (interpreter p) tb))
      \<and> LogLine text \<in> set (logged (snd (work c r p)))
      \<and> LogLine (concat (format_tb tb)) \<in> set (logged (snd (work c r p)))
      \<and> (add_keys_reply c = Inr ''OK'' \<longrightarrow> fst (work c r p) = Inr ''error'')
      \<and> (add_keys_reply c = Inr response \<and> decode (interpreter p) response = Inr decoded
            \<longrightarrow> fst (work c r p) = Inr ''error'')
      \<and> (add_keys_reply c = Inl x \<longrightarrow> fst (work c r p) = Inl x)"
    if ex: "is_Exception e" and st: "str_exc e = Inr text"
  proof -
    have logs: "LogLine text \<in> set (logged (snd (work c r p)))
        \<and> LogLine (concat (format_tb tb)) \<in> set (logged (snd (work c r p)))"
      using report_logged
      by (fastforce simp add: work_after_gather [OF g] run_job_raises [OF f ex st])
    have stored: "data (snd (work c r p)) (key r)
        = Some (PyExc e (attached (interpreter p) tb))"
      by (simp add: work_after_gather [OF g] run_job_raises [OF f ex st] report_data i1)
    have answer: "fst (work c r p) =
        (case add_keys_reply c of
           Inl y \<Rightarrow> Inl y
         | Inr resp \<Rightarrow>
             if resp \<noteq> ''OK''
             then (case decode (interpreter p) resp of
                     Inl y \<Rightarrow> Inl y | Inr t \<Rightarrow> Inr ''error'')
             else Inr ''error'')"
      by (simp add: work_after_gather [OF g] run_job_raises [OF f ex st] report_result i1
          split: sum.splits)
    show ?thesis
      using logs stored by (auto simp add: answer)
  qed
  have escapes: "fst (work c r p) = Inl e
      \<and> data (snd (work c r p)) = data p
      \<and> sent (snd (work c r p)) = sent (snd (gather_data c (needed r) p))"
    if nex: "\<not> is_Exception e"
    by (simp add: work_after_gather [OF g] run_job_escapes [OF f nex] gather_data_data)
  show ?thesis
    using caught escapes by blast
qed

text \<open>
  \<open>add\<close> is given a string it cannot add and raises \<open>TypeError\<close>: the call
  answers \<open>error\<close> and the exception object is stored. A function that calls
  \<open>sys.exit()\<close>: \<open>SystemExit\<close> leaves the call and nothing is stored.
\<close>

theorem work_stores_exception_object_witness:
  "job_outcome center_ok (request_add\<lparr>args := [PyStr ''x'', PyStr ''oops'']\<rparr>) worker0
     = Some (Raises (PyException ''TypeError'' ''unsupported operand type(s) for +'')
               (Traceback [''  File ops.py, line 2, in add'']))
   \<and> is_Exception (PyException ''TypeError'' ''unsupported operand type(s) for +'')
   \<and> str_exc (PyException ''TypeError'' ''unsupported operand type(s) for +'')
       = Inr ''unsupported operand type(s) for +''
   \<and> add_keys_reply center_ok = Inr ''OK''
   \<and> fst (work center_ok (request_add\<lparr>args := [PyStr ''x'', PyStr ''oops'']\<rparr>) worker0)
       = Inr ''error''
   \<and> data (snd (work center_ok (request_add\<lparr>args := [PyStr ''x'', PyStr ''oops'']\<rparr>) worker0)) ''z''
       = Some (PyExc (PyException ''TypeError'' ''unsupported operand type(s) for +'')
                 (Some (Traceback [''  File ops.py, line 2, in add''])))
   \<and> LogLine ''unsupported operand type(s) for +''
       \<in> set (logged (snd (work center_ok
                 (request_add\<lparr>args := [PyStr ''x'', PyStr ''oops'']\<rparr>) worker0)))
   \<and> LogLine ''  File ops.py, line 2, in add''
       \<in> set (logged (snd (work center_ok
                 (request_add\<lparr>args := [PyStr ''x'', PyStr ''oops'']\<rparr>) worker0)))
   \<and> job_outcome center_ok (request_add\<lparr>function := exit_function\<rparr>) worker0
       = Some (Raises (PyBaseException ''SystemExit'' '''')
                 (Traceback [''  File ops.py, line 5, in leave'']))
   \<and> \<not> is_Exception (PyBaseException ''SystemExit'' '''')
   \<and> fst (work center_ok (request_add\<lparr>function := exit_function\<rparr>) worker0)
       = Inl (PyBaseException ''SystemExit'' '''')
   \<and> data (snd (work center_ok (request_add\<lparr>function := exit_function\<rparr>) worker0))
       = data worker0"
  using work_stores_exception_object
      [of center_ok "request_add\<lparr>args := [PyStr ''x'', PyStr ''oops'']\<rparr>" worker0
          "PyException ''TypeError'' ''unsupported operand type(s) for +''"
          "Traceback [''  File ops.py, line 2, in add'']"
          "''unsupported operand type(s) for +''"]
    work_stores_exception_object
      [of center_ok "request_add\<lparr>function := exit_function\<rparr>" worker0
          "PyBaseException ''SystemExit'' ''''"
          "Traceback [''  File ops.py, line 5, in leave'']"]
  by (simp add: job_outcome_def gather_data_def Let_def cluster_defs)

text \<open>
  Four calls in which the function raises and the claim fails. A function that calls
  \<open>sys.exit()\<close>: the call raises \<open>SystemExit\<close> and stores nothing. An
  exception whose \<open>__str__\<close> fails: the call raises what \<open>__str__\<close>
  raised and stores nothing. \<open>add\<close> raising \<open>TypeError\<close> while the
  connection drops during \<open>add_keys\<close>: the call raises. The same on Python 2 with
  a Center that answers: what is stored is the exception object, and it holds no
  traceback.
\<close>

theorem work_exception_not_always_recorded:
  "job_outcome center_ok (request_add\<lparr>function := exit_function\<rparr>) worker0
     = Some (Raises (PyBaseException ''SystemExit'' '''')
               (Traceback [''  File ops.py, line 5, in leave'']))
   \<and> fst (work center_ok (request_add\<lparr>function := exit_function\<rparr>) worker0)
       = Inl (PyBaseException ''SystemExit'' '''')
   \<and> data (snd (work center_ok (request_add\<lparr>function := exit_function\<rparr>) worker0)) ''z''
       = None
   \<and> job_outcome center_ok (request_add\<lparr>function := mute_function\<rparr>) worker0
       = Some (Raises (PyUnprintable ''Mute'' (PyException ''ValueError'' ''no text''))
                 (Traceback [''  File ops.py, line 8, in mute'']))
   \<and> fst (work center_ok (request_add\<lparr>function := mute_function\<rparr>) worker0)
       = Inl (PyException ''ValueError'' ''no text'')
   \<and> data (snd (work center_ok (request_add\<lparr>function := mute_function\<rparr>) worker0)) ''z''
       = None
   \<and> fst (work (center_ok\<lparr>add_keys_reply :=
                   Inl (PyException ''StreamClosedError'' ''Stream is closed'')\<rparr>)
            (request_add\<lparr>args := [PyStr ''x'', PyStr ''oops'']\<rparr>) worker0)
       = Inl (PyException ''StreamClosedError'' ''Stream is closed'')
   \<and> data (snd (work center_ok (request_add\<lparr>args := [PyStr ''x'', PyStr ''oops'']\<rparr>)
                   (worker0\<lparr>interpreter := Python2\<rparr>))) ''z''
       = Some (PyExc (PyException ''TypeError'' ''unsupported operand type(s) for +'') None)"
  by (simp add: job_outcome_def work_defs cluster_defs)

subsection \<open>C5: a function that returns\<close>

text \<open>
  C5, as the code has it. When the submitted function returns \<open>v\<close>, the store
  holds \<open>v\<close> under the result's key after the call, and \<open>get_data\<close> for
  that key then returns the dictionary of the key and \<open>v\<close>, leaving the state as
  it is. \<open>work\<close> answers \<open>success\<close> when \<open>add_keys\<close> returns
  \<open>b'OK'\<close> or a reply that decodes; when the call of \<open>add_keys\<close> raises,
  that exception leaves \<open>work\<close>.
\<close>

theorem work_success_stored_and_served:
  assumes "job_outcome c r p = Some (Returns v)"
  shows "data (snd (work c r p)) (key r) = Some v
     \<and> get_data [key r] (snd (work c r p)) = (Inr [key r \<mapsto> v], snd (work c r p))
     \<and> (add_keys_reply c = Inr ''OK'' \<longrightarrow> fst (work c r p) = Inr ''success'')
     \<and> (add_keys_reply c = Inr response \<and> decode (interpreter p) response = Inr decoded
           \<longrightarrow> fst (work c r p) = Inr ''success'')
     \<and> (add_keys_reply c = Inl x \<longrightarrow> fst (work c r p) = Inl x)"
proof -
  from assms obtain data2 where g: "fst (gather_data c (needed r) p) = Inr data2"
    and f: "call (function r) (keys_to_data (args r) data2)
              (keys_to_data_kw (kwargs r) data2) = Returns v"
    using job_outcome_Some by blast
  have i1: "interpreter (snd (gather_data c (needed r) p)) = interpreter p"
    by (rule gather_data_interpreter)
  have stored: "data (snd (work c r p)) (key r) = Some v"
    by (simp add: work_after_gather [OF g] run_job_returns [OF f] report_data)
  have answer: "fst (work c r p) =
      (case add_keys_reply c of
         Inl y \<Rightarrow> Inl y
       | Inr resp \<Rightarrow>
           if resp \<noteq> ''OK''
           then (case decode (interpreter p) resp of
                   Inl y \<Rightarrow> Inl y | Inr t \<Rightarrow> Inr ''success'')
           else Inr ''success'')"
    by (simp add: work_after_gather [OF g] run_job_returns [OF f] report_result i1
        split: sum.splits)
  show ?thesis
    using stored by (auto simp add: answer get_data_def)
qed

text \<open>
  The scenario of the spec: an empty store, \<open>add\<close> on \<open>x\<close> and \<open>y\<close>,
  which peers hold as 2 and 3. Then the same call with a Center that drops the connection
  during \<open>add_keys\<close>: 5 is stored and served all the same.
\<close>

theorem work_success_stored_and_served_witness:
  "job_outcome center_ok request_add worker0 = Some (Returns (PyInt 5))
   \<and> add_keys_reply center_ok = Inr ''OK''
   \<and> fst (work center_ok request_add worker0) = Inr ''success''
   \<and> data (snd (work center_ok request_add worker0)) ''z'' = Some (PyInt 5)
   \<and> fst (get_data [''z''] (snd (work center_ok request_add worker0)))
       = Inr [''z'' \<mapsto> PyInt 5]
   \<and> job_outcome (center_ok\<lparr>add_keys_reply :=
                     Inl (PyException ''StreamClosedError'' ''Stream is closed'')\<rparr>)
        request_add worker0 = Some (Returns (PyInt 5))
   \<and> data (snd (work (center_ok\<lparr>add_keys_reply :=
                         Inl (PyException ''StreamClosedError'' ''Stream is closed'')\<rparr>)
                  request_add worker0)) ''z'' = Some (PyInt 5)
   \<and> fst (work (center_ok\<lparr>add_keys_reply :=
                   Inl (PyException ''StreamClosedError'' ''Stream is closed'')\<rparr>)
            request_add worker0)
       = Inl (PyException ''StreamClosedError'' ''Stream is closed'')"
  using work_success_stored_and_served [of center_ok request_add worker0 "PyInt 5"]
    work_success_stored_and_served
      [of "center_ok\<lparr>add_keys_reply :=
             Inl (PyException ''StreamClosedError'' ''Stream is closed'')\<rparr>"
          request_add worker0 "PyInt 5" _ _ "PyException ''StreamClosedError'' ''Stream is closed''"]
  by (simp add: job_outcome_def gather_data_def Let_def cluster_defs)

text \<open>
  The function returns 5 and the connection drops during \<open>add_keys\<close>: the call
  does not answer \<open>success\<close>, the exception leaves \<open>work\<close>.
\<close>

theorem work_report_failure_hides_success:
  "job_outcome (center_ok\<lparr>add_keys_reply :=
                   Inl (PyException ''StreamClosedError'' ''Stream is closed'')\<rparr>)
      request_add worker0 = Some (Returns (PyInt 5))
   \<and> fst (work (center_ok\<lparr>add_keys_reply :=
                   Inl (PyException ''StreamClosedError'' ''Stream is closed'')\<rparr>)
            request_add worker0)
       = Inl (PyException ''StreamClosedError'' ''Stream is closed'')
   \<and> fst (work (center_ok\<lparr>add_keys_reply :=
                   Inl (PyException ''StreamClosedError'' ''Stream is closed'')\<rparr>)
            request_add worker0)
       \<noteq> Inr ''success''"
  by (simp add: job_outcome_def work_defs cluster_defs)

subsection \<open>C6: a report the Center does not accept\<close>

text \<open>
  Where the reply to \<open>add_keys\<close> is not \<open>b'OK'\<close> and decodes, the handler
  does what C6 says: it answers the status of the job and the last line logged says
  that the report failed, with the decoded reply.
\<close>

lemma work_logs_rejected_report:
  assumes "fst (gather_data c (needed r) p) = Inr data2"
    and "fst (run_job (function r) (keys_to_data (args r) data2)
               (keys_to_data_kw (kwargs r) data2) p) = Inr (result, out_response)"
    and "add_keys_reply c = Inr response"
    and "response \<noteq> ''OK''"
    and "decode (interpreter p) response = Inr decoded"
  shows "fst (work c r p) = Inr out_response
     \<and> last (logged (snd (work c r p))) = LogCouldNotReport decoded"
proof -
  let ?a = "keys_to_data (args r) data2" and ?kw = "keys_to_data_kw (kwargs r) data2"
  let ?p1 = "snd (gather_data c (needed r) p)"
  have i1: "interpreter ?p1 = interpreter p"
    by (rule gather_data_interpreter)
  have "fst (run_job (function r) ?a ?kw ?p1) = fst (run_job (function r) ?a ?kw p)"
    by (simp add: run_job_result i1 split: outcome.splits sum.splits)
  then obtain p2 where rj: "run_job (function r) ?a ?kw ?p1 = (Inr (result, out_response), p2)"
    using assms(2) by (metis prod.collapse)
  have i2: "interpreter p2 = interpreter p"
    using rj i1
    by (auto simp add: run_job_def Let_def split: outcome.splits sum.splits if_splits)
  show ?thesis
    using assms(3-5)
    by (simp add: work_after_gather [OF assms(1)] rj report_def Let_def i2)
qed

text \<open>
  C6 at a reply that does not decode. The Center answers \<open>add_keys\<close> with the
  single byte 255. The function has returned 5 and 5 is stored, but building the line for
  the log raises \<open>UnicodeDecodeError\<close> at line 147, on Python 3 and on Python 2
  alike: the call ends with that exception and not with \<open>success\<close>, and no line
  about the report is logged.
\<close>

theorem work_undecodable_reply_raises:
  "job_outcome (center_ok\<lparr>add_keys_reply := Inr [CHR 0xFF]\<rparr>) request_add worker0
     = Some (Returns (PyInt 5))
   \<and> add_keys_reply (center_ok\<lparr>add_keys_reply := Inr [CHR 0xFF]\<rparr>) \<noteq> Inr ''OK''
   \<and> fst (work (center_ok\<lparr>add_keys_reply := Inr [CHR 0xFF]\<rparr>) request_add worker0)
       = Inl (PyException ''UnicodeDecodeError'' ''codec can't decode byte'')
   \<and> fst (work (center_ok\<lparr>add_keys_reply := Inr [CHR 0xFF]\<rparr>) request_add
            (worker0\<lparr>interpreter := Python2\<rparr>))
       = Inl (PyException ''UnicodeDecodeError'' ''codec can't decode byte'')
   \<and> data (snd (work (center_ok\<lparr>add_keys_reply := Inr [CHR 0xFF]\<rparr>) request_add worker0))
        ''z'' = Some (PyInt 5)
   \<and> logged (snd (work (center_ok\<lparr>add_keys_reply := Inr [CHR 0xFF]\<rparr>) request_add worker0))
       = [LogStartWorker, LogGather [''x'', ''y''], LogStartJob 1 ''add'', LogFinishJob 1 ''add'']"
  by (simp add: job_outcome_def decode_def work_defs cluster_defs)

subsection \<open>C7: what is fetched\<close>

text \<open>
  C7. The fetches a \<open>compute\<close> call adds to the calls issued: none when the
  connection to the Center does not open or every needed key is in the store; otherwise
  one, for the needed keys that are not in the store. The keys of that list are the set
  \<open>needed\<close> minus the keys of the store.
\<close>

theorem work_fetches_exactly_missing:
  "fetches (sent (snd (work c r p))) =
     fetches (sent p) @
       (if connect_reply c = None \<and> set (needed r) - dom (data p) \<noteq> {}
        then [filter (\<lambda>n. n \<notin> dom (data p)) (needed r)] else [])
   \<and> set (filter (\<lambda>n. n \<notin> dom (data p)) (needed r)) = set (needed r) - dom (data p)"
proof -
  have eq: "filter (\<lambda>n. n \<notin> dom (data p)) (needed r) = filter (\<lambda>n. data p n = None) (needed r)"
    by (simp add: dom_def)
  have s: "set (filter (\<lambda>n. n \<notin> dom (data p)) (needed r)) = set (needed r) - dom (data p)"
    by auto
  have e: "(filter (\<lambda>n. data p n = None) (needed r) \<noteq> []) = (set (needed r) - dom (data p) \<noteq> {})"
    using s unfolding eq by (metis set_empty)
  show ?thesis
    unfolding work_fetches gather_data_sent
    using s e by (simp add: fetches_append eq)
qed

theorem work_fetches_exactly_missing_witness:
  "fetches (sent (snd (work center_ok request_add (worker0\<lparr>data := [''x'' \<mapsto> PyInt 2]\<rparr>))))
     = [[''y'']]
   \<and> fetches (sent (snd (work center_ok request_add
        (worker0\<lparr>data := [''x'' \<mapsto> PyInt 2, ''y'' \<mapsto> PyInt 3]\<rparr>)))) = []
   \<and> fetches (sent (snd (work center_ok (request_add\<lparr>needed := []\<rparr>) worker0))) = []
   \<and> sent (snd (work center_ok (request_add\<lparr>needed := []\<rparr>) worker0))
       = [Connect (''192.168.0.100'', 8000), AddKeys (''192.168.0.101'', 8001) True [''z'']]"
  using work_fetches_exactly_missing
      [of center_ok request_add "worker0\<lparr>data := [''x'' \<mapsto> PyInt 2]\<rparr>"]
    work_fetches_exactly_missing
      [of center_ok request_add "worker0\<lparr>data := [''x'' \<mapsto> PyInt 2, ''y'' \<mapsto> PyInt 3]\<rparr>"]
    work_fetches_exactly_missing [of center_ok "request_add\<lparr>needed := []\<rparr>" worker0]
  by (simp add: work_defs cluster_defs)

subsection \<open>C8: the store across a compute call\<close>

text \<open>
  C8. A \<open>compute\<close> call writes the store at the result's key only: every other key
  holds after the call what it held before, whatever was fetched for the call and however
  the call ends. The fetched values live in \<open>data2\<close>, a dictionary of its own.
\<close>

theorem work_changes_only_key:
  "k \<noteq> key r \<Longrightarrow> data (snd (work c r p)) k = data p k"
  by (simp add: work_defs split: option.splits sum.splits outcome.splits prod.splits)

text \<open>\<open>x\<close> is fetched for the call and is not in the store afterwards.\<close>

theorem work_changes_only_key_witness:
  "''x'' \<noteq> key request_add \<and> data worker0 ''x'' = None
   \<and> fetches (sent (snd (work center_ok request_add worker0))) = [[''x'', ''y'']]
   \<and> data (snd (work center_ok request_add worker0)) ''x'' = None"
  using work_changes_only_key [of "''x''" request_add center_ok worker0]
  by (simp add: work_defs cluster_defs)

subsection \<open>C9: a key needed twice\<close>



subsection \<open>C10: get_data reads\<close>

text \<open>
  C10. When the store holds every key asked for, \<open>get_data\<close> returns the store
  restricted to those keys, that is each of them with its value, and the state after the
  call is the state before it: the same store, and no call issued to the Center.
\<close>

theorem get_data_pure_read:
  "set keys \<subseteq> dom (data p) \<Longrightarrow> get_data keys p = (Inr (data p |` set keys), p)"
  by (simp add: get_data_def collect_present)

theorem get_data_pure_read_witness:
  "set [''a'', ''b''] \<subseteq> dom (data (worker0\<lparr>data := [''a'' \<mapsto> PyInt 1, ''b'' \<mapsto> PyInt 2]\<rparr>))
   \<and> get_data [''a'', ''b''] (worker0\<lparr>data := [''a'' \<mapsto> PyInt 1, ''b'' \<mapsto> PyInt 2]\<rparr>)
       = (Inr [''a'' \<mapsto> PyInt 1, ''b'' \<mapsto> PyInt 2],
          worker0\<lparr>data := [''a'' \<mapsto> PyInt 1, ''b'' \<mapsto> PyInt 2]\<rparr>)"
  using get_data_pure_read
    [of "[''a'', ''b'']" "worker0\<lparr>data := [''a'' \<mapsto> PyInt 1, ''b'' \<mapsto> PyInt 2]\<rparr>"]
  by (auto simp add: restrict_map_def fun_eq_iff)

end
